theory Spec2Isabelle
  imports Main
begin

section \<open>Values, exceptions and outcomes\<close>

text \<open>
  Byte strings (\<open>bytes\<close>) and text are both lists of 8-bit characters. Python exceptions
  are values of \<open>exn\<close>; only the class matters to the properties below, the message of
  the two exceptions that \<open>server.py\<close> raises itself is kept.
\<close>

type_synonym bytes = string

datatype exn =
    OSError string
  | ValueError string
  | AssertionError
  | AttributeError
  | ConnectionError
  | FileExistsError
  | NotADirectoryError
  | IsADirectoryError
  | FileNotFoundError

text \<open>
  A call either returns a value, raises, or never returns (a \<open>select\<close> without timeout
  on a silent child, or a polling loop that is never left).
\<close>

datatype 'a outcome = Returns 'a | Raises exn | Blocks

section \<open>The server object and the operating-system side of a child process\<close>

type_synonym path = "string list"

type_synonym handle = nat

text \<open>The fields of a \<open>PKLServer\<close> instance.\<close>

record server =
  process :: "handle option"
  cmd :: "path \<times> string"
  next_request_id :: int

datatype stream = Stdout | Stderr

text \<open>
  One observation of the child, as one pass of the polling loop sees it: the bytes that
  \<open>read()\<close> delivers on each stream that \<open>select\<close> reports readable (\<open>None\<close>: the stream
  is not readable), and what \<open>poll()\<close> answers after the reads (\<open>None\<close>: still running).
\<close>

record event =
  stdout_ready :: "bytes option"
  stderr_ready :: "bytes option"
  returncode :: "int option"

text \<open>
  Everything outside the object: the observations still to come (after the last one the
  child stays alive and silent), what was printed on the diagnostic sink, the warnings
  issued, the byte strings written to the child's stdin, the number of \<open>select\<close> calls
  that have returned, the module-level registry \<open>_PROCESSES\<close>, the log of spawned
  children (handle, command line, whether the debug environment replaced the inherited
  one) and the handles that were sent \<open>terminate()\<close>.
\<close>

record world =
  events :: "event list"
  printed :: "string list"
  warnings :: "string list"
  stdin_written :: "bytes list"
  select_calls :: nat
  PROCESSES :: "handle list"
  spawned :: "(handle \<times> (path \<times> string) \<times> bool) list"
  terminated :: "handle list"

section \<open>Request ids, start, terminate\<close>

definition get_request_id :: "server \<Rightarrow> int \<times> server" where
  "get_request_id self =
     (let ret = next_request_id self
      in (ret, self\<lparr>next_request_id := next_request_id self + 1\<rparr>))"

definition start_process :: "bool \<Rightarrow> server \<Rightarrow> world \<Rightarrow> server \<times> world" where
  "start_process debug self w =
     (if process self \<noteq> None then (self, w)
      else
        let h = length (spawned w)
        in (self\<lparr>process := Some h\<rparr>,
            w\<lparr>spawned := spawned w @ [(h, cmd self, debug)],
              PROCESSES := PROCESSES w @ [h]\<rparr>))"

definition start_first :: string where
  "start_first = ''Start server first with '' @ [CHR 0x27] @ ''start_process'' @ [CHR 0x27]"

definition check_process :: "server \<Rightarrow> bool \<Rightarrow> exn + bool" where
  "check_process self is_raise =
     (if process self = None then
        (if is_raise then Inl (ValueError start_first) else Inr False)
      else Inr True)"

text \<open>
  \<open>terminate\<close> calls a method on \<open>self._process\<close> without looking at it first, so on an
  instance without a handle Python raises \<open>AttributeError\<close>.
\<close>

definition terminate :: "server \<Rightarrow> world \<Rightarrow> unit outcome \<times> server \<times> world" where
  "terminate self w =
     (case process self of
        None \<Rightarrow> (Raises AttributeError, self, w)
      | Some h \<Rightarrow> (Returns (), self\<lparr>process := None\<rparr>, w\<lparr>terminated := terminated w @ [h]\<rparr>))"

section \<open>The message transport\<close>

definition pending :: "event \<Rightarrow> stream \<Rightarrow> bytes option" where
  "pending e s = (case s of Stdout \<Rightarrow> stdout_ready e | Stderr \<Rightarrow> stderr_ready e)"

text \<open>
  \<open>select.select([stdout, stderr], [], [], timeout)\<close> answers with the sublist of the
  streams it was given that are readable, in the order given.
\<close>

definition select_readable :: "event \<Rightarrow> stream list" where
  "select_readable e = filter (\<lambda>s. pending e s \<noteq> None) [Stdout, Stderr]"

definition stream_read :: "event \<Rightarrow> stream \<Rightarrow> bytes" where
  "stream_read e s = (case pending e s of Some b \<Rightarrow> b | None \<Rightarrow> [])"

text \<open>
  The body of \<open>for stream in readable\<close>: a read from stdout is appended to \<open>outputs\<close>, a
  read from stderr is printed (the decoded text is kept as the bytes it came from).
\<close>

fun drain :: "event \<Rightarrow> stream list \<Rightarrow> bytes list \<Rightarrow> string list \<Rightarrow> bytes list \<times> string list" where
  "drain e [] outputs out = (outputs, out)"
| "drain e (s # ss) outputs out =
     (let output = stream_read e s
      in if s = Stdout then drain e ss (outputs @ [output]) out
         else drain e ss outputs (out @ [output]))"

text \<open>How the \<open>while True\<close> loop of \<open>receive_message\<close> is left.\<close>

datatype loop_exit = EarlyReturn | Break "bytes list" | Forever

definition terminated_line :: string where
  "terminated_line = ''Process has terminated'' @ [CHR 0x0A]"

text \<open>
  The polling loop. With \<open>timeout = None\<close> a \<open>select\<close> call does not return while
  nothing is readable, so it passes over such observations; with a timeout it returns
  an empty list for them. When no observation is left the child is alive and silent:
  a \<open>select\<close> without timeout waits without end, and with a timeout the loop turns
  without end unless \<open>empty_break\<close> (or a non-empty \<open>outputs\<close>) stops it.
\<close>

function receive_loop :: "nat option \<Rightarrow> bool \<Rightarrow> bytes list \<Rightarrow> world \<Rightarrow> loop_exit \<times> world" where
  "receive_loop timeout empty_break outputs w =
     (case events w of
        [] \<Rightarrow>
          (if timeout = None then (Forever, w)
           else
             let w1 = w\<lparr>select_calls := select_calls w + 1\<rparr>
             in if empty_break then (EarlyReturn, w1)
                else if length outputs > 0 then (Break outputs, w1)
                else (Forever, w))
      | e # es \<Rightarrow>
          (let readable = select_readable e
           in if timeout = None \<and> readable = []
              then receive_loop timeout empty_break outputs (w\<lparr>events := es\<rparr>)
              else
                let w1 = w\<lparr>events := es, select_calls := select_calls w + 1\<rparr>
                in if empty_break \<and> length readable = 0 then (EarlyReturn, w1)
                   else
                     let (outputs', out) = drain e readable outputs (printed w1);
                         w2 = w1\<lparr>printed := out\<rparr>
                     in if length outputs' > 0 then (Break outputs', w2)
                        else if returncode e \<noteq> None
                        then (Break outputs', w2\<lparr>printed := printed w2 @ [terminated_line]\<rparr>)
                        else receive_loop timeout empty_break outputs' w2))"
  by pat_completeness auto
termination
  by (relation "measure (\<lambda>(t, b, outs, w). length (events w))") auto

declare receive_loop.simps [simp del]

text \<open>
  \<open>unpack\<close> stands for \<open>list(unpacker)\<close> after \<open>unpacker.feed(outputs[0])\<close>: the msgpack
  decoder is a library, and is a parameter here. A plain \<open>return\<close> gives Python's
  \<open>None\<close>, which is \<open>None\<close> here; a list of responses is \<open>Some\<close> of it.
\<close>

definition receive_message ::
  "(bytes \<Rightarrow> 'm list) \<Rightarrow> nat option \<Rightarrow> bool \<Rightarrow> server \<Rightarrow> world \<Rightarrow> 'm list option outcome \<times> world" where
  "receive_message unpack timeout empty_break self w =
     (case check_process self True of
        Inl e \<Rightarrow> (Raises e, w)
      | Inr ok \<Rightarrow>
          (case receive_loop timeout empty_break [] w of
             (EarlyReturn, w') \<Rightarrow> (Returns None, w')
           | (Forever, w') \<Rightarrow> (Blocks, w')
           | (Break outputs, w') \<Rightarrow>
               if length outputs = 1 then (Returns (Some (unpack (outputs ! 0))), w')
               else (Raises AssertionError, w')))"

definition send_message ::
  "('r \<Rightarrow> bytes) \<Rightarrow> server \<Rightarrow> 'r \<Rightarrow> world \<Rightarrow> 'm list option outcome \<times> world" where
  "send_message packb self msg_obj w =
     (case check_process self True of
        Inl e \<Rightarrow> (Raises e, w)
      | Inr ok \<Rightarrow>
          (let encoded_message = packb msg_obj
           in (Returns None, w\<lparr>stdin_written := stdin_written w @ [encoded_message]\<rparr>)))"

text \<open>
  The \<open>while response is None and retry <= max_retry\<close> loop of \<open>receive_with_retry\<close>,
  returning \<open>response\<close> and \<open>retry\<close> as they are when the loop is left.
\<close>

function retry_loop ::
  "(bytes \<Rightarrow> 'm list) \<Rightarrow> server \<Rightarrow> int \<Rightarrow> 'm list option \<Rightarrow> int \<Rightarrow> world
     \<Rightarrow> ('m list option \<times> int) outcome \<times> world" where
  "retry_loop unpack self max_retry response retry w =
     (if response = None \<and> retry \<le> max_retry then
        (case receive_message unpack None False self w of
           (Returns r, w') \<Rightarrow> retry_loop unpack self max_retry r (retry + 1) w'
         | (Raises e, w') \<Rightarrow> (Raises e, w')
         | (Blocks, w') \<Rightarrow> (Blocks, w'))
      else (Returns (response, retry), w))"
  by pat_completeness auto
termination
  by (relation "measure (\<lambda>(u, s, max_retry, resp, retry, w). nat (max_retry + 1 - retry))") auto

declare retry_loop.simps [simp del]

definition receive_with_retry ::
  "(bytes \<Rightarrow> 'm list) \<Rightarrow> server \<Rightarrow> int \<Rightarrow> world \<Rightarrow> 'm list option outcome \<times> world" where
  "receive_with_retry unpack self max_retry w =
     (case retry_loop unpack self max_retry None 0 w of
        (Returns (response, retry), w') \<Rightarrow>
          (Returns response,
           if retry = max_retry then w'\<lparr>warnings := warnings w' @ [''Max retry reached.'']\<rparr> else w')
      | (Raises e, w') \<Rightarrow> (Raises e, w')
      | (Blocks, w') \<Rightarrow> (Blocks, w'))"

definition send_and_receive ::
  "('r \<Rightarrow> bytes) \<Rightarrow> (bytes \<Rightarrow> 'm list) \<Rightarrow> server \<Rightarrow> 'r \<Rightarrow> world \<Rightarrow> 'm list option outcome \<times> world" where
  "send_and_receive packb unpack self msg_obj w =
     (case (send_message packb self msg_obj w :: 'm list option outcome \<times> world) of
        (Returns u, w') \<Rightarrow> receive_message unpack None False self w'
      | (Raises e, w') \<Rightarrow> (Raises e, w')
      | (Blocks, w') \<Rightarrow> (Blocks, w'))"

section \<open>The binary resolver\<close>

definition BINARIES :: "(string list \<times> string) list" where
  "BINARIES =
     [([''darwin'', ''64bit''], ''pkl-macos-amd64''),
      ([''darwin'', ''aarch64''], ''pkl-macos-aarch64''),
      ([''linux'', ''64bit''], ''pkl-linux-amd64''),
      ([''linux'', ''aarch64''], ''pkl-linux-aarch64''),
      ([''linux'', ''64bit'', ''alpine''], ''pkl-alpine-linux-amd64'')]"

definition PKL_VERSION :: string where
  "PKL_VERSION = ''0.25.2''"

definition BASE_PATH :: string where
  "BASE_PATH = ''https://github.com/apple/pkl/releases/download/''"

definition S_IXUSR :: int where
  "S_IXUSR = 64"

text \<open>
  A file system entry with its \<open>st_mode\<close>; the file system maps a path, given by its
  components, to the entry there.
\<close>

datatype node = File (data: bytes) (st_mode: int) | Dir (st_mode: int)

datatype http_reply = NetworkFailure | Response (status_code: nat) (content: bytes)

text \<open>
  The host as the resolver sees it: the answers of \<open>platform.system()\<close> and
  \<open>platform.architecture()\<close>, the home directory that \<open>expanduser\<close> puts for \<open>~\<close>, the
  file system, the modes that a newly created file and directory get, what a GET on a
  URL yields, and the log of the GET requests made.
\<close>

record host =
  platform_system :: string
  platform_architecture :: "string \<times> string"
  home :: path
  files :: "path \<rightharpoonup> node"
  file_creation_mode :: int
  dir_creation_mode :: int
  http :: "string \<Rightarrow> http_reply"
  requests_log :: "string list"

text \<open>\<open>str.lower()\<close> on the ASCII letters, which is all a system name is made of.\<close>

definition lower_char :: "char \<Rightarrow> char" where
  "lower_char c =
     (case map_of (zip ''ABCDEFGHIJKLMNOPQRSTUVWXYZ'' ''abcdefghijklmnopqrstuvwxyz'') c of
        Some d \<Rightarrow> d
      | None \<Rightarrow> c)"

definition lower :: "string \<Rightarrow> string" where
  "lower s = map lower_char s"

definition detect_system :: "host \<Rightarrow> string \<times> string" where
  "detect_system h =
     (let os_name = lower (platform_system h);
          arch = fst (platform_architecture h)
      in (os_name, arch))"

definition os_path_isfile :: "host \<Rightarrow> path \<Rightarrow> bool" where
  "os_path_isfile h p =
     (case files h p of
        Some (File d m) \<Rightarrow> True
      | Some (Dir m) \<Rightarrow> False
      | None \<Rightarrow> False)"

definition is_alpine_linux :: "host \<Rightarrow> bool" where
  "is_alpine_linux h = os_path_isfile h [''/'', ''etc'', ''alpine-release'']"

definition expanduser :: "host \<Rightarrow> path \<Rightarrow> path" where
  "expanduser h p = (case p of [] \<Rightarrow> [] | c # cs \<Rightarrow> if c = ''~'' then home h @ cs else p)"

definition path_exists :: "host \<Rightarrow> path \<Rightarrow> bool" where
  "path_exists h p = (files h p \<noteq> None)"

definition parent :: "path \<Rightarrow> path" where
  "parent p = butlast p"

definition name :: "path \<Rightarrow> string" where
  "name p = (if p = [] then [] else last p)"

text \<open>
  \<open>mkdir(exist_ok=True, parents=True)\<close>: every missing directory on the way is created;
  a regular file in the way is an error.
\<close>

fun mkdir_from :: "path \<Rightarrow> path \<Rightarrow> host \<Rightarrow> (exn + unit) \<times> host" where
  "mkdir_from base [] h = (Inr (), h)"
| "mkdir_from base (c # cs) h =
     (let d = base @ [c]
      in case files h d of
           Some (File b m) \<Rightarrow> (Inl (if cs = [] then FileExistsError else NotADirectoryError), h)
         | Some (Dir m) \<Rightarrow> mkdir_from d cs h
         | None \<Rightarrow> mkdir_from d cs (h\<lparr>files := (files h)(d \<mapsto> Dir (dir_creation_mode h))\<rparr>))"

definition mkdir_parents :: "path \<Rightarrow> host \<Rightarrow> (exn + unit) \<times> host" where
  "mkdir_parents p h = mkdir_from [] p h"

text \<open>
  \<open>requests.get\<close> raises on a transport failure and returns the response otherwise,
  whatever its status code is; \<open>download_binary\<close> then writes the body.
\<close>

definition download_binary :: "string \<Rightarrow> path \<Rightarrow> host \<Rightarrow> (exn + unit) \<times> host" where
  "download_binary file target_fp h =
     (let url = BASE_PATH @ PKL_VERSION @ ''/'' @ file;
          h1 = h\<lparr>requests_log := requests_log h @ [url]\<rparr>
      in case http h url of
           NetworkFailure \<Rightarrow> (Inl ConnectionError, h1)
         | Response st body \<Rightarrow>
             (case files h1 target_fp of
                Some (Dir m) \<Rightarrow> (Inl IsADirectoryError, h1)
              | Some (File b m) \<Rightarrow> (Inr (), h1\<lparr>files := (files h1)(target_fp \<mapsto> File body m)\<rparr>)
              | None \<Rightarrow>
                  (Inr (), h1\<lparr>files := (files h1)(target_fp \<mapsto> File body (file_creation_mode h1))\<rparr>)))"

definition os_stat :: "host \<Rightarrow> path \<Rightarrow> exn + int" where
  "os_stat h p = (case files h p of None \<Rightarrow> Inl FileNotFoundError | Some n \<Rightarrow> Inr (st_mode n))"

definition os_chmod :: "path \<Rightarrow> int \<Rightarrow> host \<Rightarrow> (exn + unit) \<times> host" where
  "os_chmod p m h =
     (case files h p of
        None \<Rightarrow> (Inl FileNotFoundError, h)
      | Some (File b m0) \<Rightarrow> (Inr (), h\<lparr>files := (files h)(p \<mapsto> File b m)\<rparr>)
      | Some (Dir m0) \<Rightarrow> (Inr (), h\<lparr>files := (files h)(p \<mapsto> Dir m)\<rparr>))"

definition get_binary_path :: "host \<Rightarrow> (exn + path) \<times> host" where
  "get_binary_path h =
     (let (os_name, arch) = detect_system h;
          os_name = (if os_name = ''linux'' \<and> is_alpine_linux h then ''alpine'' else os_name);
          binary_key = [os_name, arch];
          binary_key = (if binary_key = [''linux'', ''64bit''] \<and> is_alpine_linux h
                        then binary_key @ [''alpine''] else binary_key)
      in case map_of BINARIES binary_key of
           None \<Rightarrow> (Inl (OSError ''No compatible binary found for your system.''), h)
         | Some bin_file \<Rightarrow>
             (let bin_parent_path = expanduser h ([''~'', ''.pkl'', ''bin''] @ [PKL_VERSION]);
                  binary_path = bin_parent_path @ [bin_file]
              in case (if \<not> path_exists h binary_path
                       then (case mkdir_parents (parent binary_path) h of
                               (Inl e, h1) \<Rightarrow> (Inl e, h1)
                             | (Inr u, h1) \<Rightarrow> download_binary bin_file binary_path h1)
                       else (Inr (), h)) of
                   (Inl e, h2) \<Rightarrow> (Inl e, h2)
                 | (Inr u, h2) \<Rightarrow>
                     (case os_stat h2 binary_path of
                        Inl e \<Rightarrow> (Inl e, h2)
                      | Inr current_permissions \<Rightarrow>
                          (let new_permissions = or current_permissions S_IXUSR
                           in case os_chmod binary_path new_permissions h2 of
                                (Inl e, h3) \<Rightarrow> (Inl e, h3)
                              | (Inr u, h3) \<Rightarrow> (Inr binary_path, h3)))))"

text \<open>\<open>PKLServer.__init__\<close>: the binary is resolved when the object is built.\<close>

definition PKLServer_init :: "host \<Rightarrow> (exn + server) \<times> host" where
  "PKLServer_init h =
     (case get_binary_path h of
        (Inl e, h') \<Rightarrow> (Inl e, h')
      | (Inr p, h') \<Rightarrow>
          (Inr \<lparr>process = None, cmd = (p, ''server''), next_request_id = 1\<rparr>, h'))"

text \<open>
  The platform tuple that identifies the host in the descriptor table: system and
  architecture, and the libc variant on a Linux that has the alpine marker file.
\<close>

definition host_tuple :: "host \<Rightarrow> string list" where
  "host_tuple h =
     (let (os_name, arch) = detect_system h
      in if os_name = ''linux'' \<and> is_alpine_linux h then [os_name, arch, ''alpine'']
         else [os_name, arch])"

text \<open>
  Nothing is readable within the timeout: the next \<open>select\<close> has neither stdout nor
  stderr to report (or no observation is left, the child being alive and silent).
\<close>

definition nothing_readable_within_timeout :: "world \<Rightarrow> bool" where
  "nothing_readable_within_timeout w =
     (case events w of [] \<Rightarrow> True | e # es \<Rightarrow> select_readable e = [])"

section \<open>Concrete hosts, servers and children\<close>

definition linux_host :: host where
  "linux_host =
     \<lparr>platform_system = ''Linux'', platform_architecture = (''64bit'', ''ELF''),
      home = [''/'', ''root''], files = Map.empty,
      file_creation_mode = 33188, dir_creation_mode = 16877,
      http = (\<lambda>url. Response 200 ''binary''), requests_log = []\<rparr>"

definition alpine_host :: host where
  "alpine_host = linux_host\<lparr>files := [[''/'', ''etc'', ''alpine-release''] \<mapsto> File ''3.19.1'' 33188]\<rparr>"

definition alpine_container :: host where
  "alpine_container = alpine_host\<lparr>home := [''/'', ''home'', ''app'']\<rparr>"

definition not_found_host :: host where
  "not_found_host = linux_host\<lparr>http := (\<lambda>url. Response 404 ''Not Found'')\<rparr>"

definition offline_host :: host where
  "offline_host = linux_host\<lparr>http := (\<lambda>url. NetworkFailure)\<rparr>"

definition linux_binary :: path where
  "linux_binary = [''/'', ''root'', ''.pkl'', ''bin'', ''0.25.2'', ''pkl-linux-amd64'']"

definition installed_host :: host where
  "installed_host = linux_host\<lparr>files := [linux_binary \<mapsto> File ''binary'' 33188]\<rparr>"

definition fresh_server :: server where
  "fresh_server = \<lparr>process = None, cmd = (linux_binary, ''server''), next_request_id = 1\<rparr>"

definition running_server :: server where
  "running_server = fresh_server\<lparr>process := Some 0\<rparr>"

definition child_with :: "event list \<Rightarrow> world" where
  "child_with evs =
     \<lparr>events = evs, printed = [], warnings = [], stdin_written = [], select_calls = 0,
      PROCESSES = [], spawned = [], terminated = []\<rparr>"

definition stderr_then_exit :: event where
  "stderr_then_exit = \<lparr>stdout_ready = None, stderr_ready = Some ''boom'', returncode = Some 1\<rparr>"

definition one_chunk :: event where
  "one_chunk = \<lparr>stdout_ready = Some ''x'', stderr_ready = None, returncode = None\<rparr>"

definition stderr_only :: event where
  "stderr_only = \<lparr>stdout_ready = None, stderr_ready = Some ''warn'', returncode = None\<rparr>"

definition nothing_ready :: event where
  "nothing_ready = \<lparr>stdout_ready = None, stderr_ready = None, returncode = None\<rparr>"

text \<open>A decoder and an encoder for the examples: the chunk is the one message.\<close>

definition unpack_chunk :: "bytes \<Rightarrow> bytes list" where
  "unpack_chunk b = [b]"

definition pack_chunk :: "bytes \<Rightarrow> bytes" where
  "pack_chunk b = b"

section \<open>Facts for evaluation\<close>

lemmas host_defs = linux_host_def alpine_host_def alpine_container_def not_found_host_def
  offline_host_def linux_binary_def installed_host_def

lemmas resolver_defs = get_binary_path_def detect_system_def lower_def lower_char_def
  is_alpine_linux_def os_path_isfile_def BINARIES_def expanduser_def PKL_VERSION_def
  path_exists_def parent_def mkdir_parents_def download_binary_def BASE_PATH_def os_stat_def
  os_chmod_def S_IXUSR_def Let_def

lemmas child_defs = fresh_server_def running_server_def child_with_def stderr_then_exit_def
  one_chunk_def stderr_only_def nothing_ready_def unpack_chunk_def pack_chunk_def linux_binary_def

lemmas transport_defs = receive_message_def check_process_def select_readable_def pending_def
  stream_read_def

section \<open>The polling loop\<close>

lemma drain_select_shape:
  "fst (drain e (select_readable e) [] out) = [] \<or>
   (\<exists>b. fst (drain e (select_readable e) [] out) = [b])"
  by (simp add: select_readable_def pending_def)

text \<open>
  Started with an empty \<open>outputs\<close>, the loop is left by \<open>break\<close> either with exactly one
  chunk, or with none after \<open>poll()\<close> reported an exit status and the termination line
  was printed. Induction on the observations still to come.
\<close>

lemma receive_loop_break:
  "receive_loop t eb [] w = (Break outs', w') \<Longrightarrow>
     (\<exists>b. outs' = [b]) \<or>
     (outs' = [] \<and> (\<exists>e \<in> set (events w). returncode e \<noteq> None) \<and>
      printed w' \<noteq> [] \<and> last (printed w') = terminated_line)"
proof (induction "events w" arbitrary: w)
  case Nil
  then show ?case
    by (simp add: receive_loop.simps [of t eb "[]" w] Let_def split: if_splits)
next
  case (Cons e es)
  from Cons.hyps(2) have ev: "events w = e # es" by simp
  show ?case
  proof (cases "t = None \<and> select_readable e = []")
    case True
    with ev Cons.prems [unfolded receive_loop.simps [of t eb "[]" w]]
    have "receive_loop t eb [] (w\<lparr>events := es\<rparr>) = (Break outs', w')"
      by simp
    with Cons.hyps(1) [of "w\<lparr>events := es\<rparr>"] ev show ?thesis by auto
  next
    case waited: False
    obtain outs1 out1 where dr: "drain e (select_readable e) [] (printed w) = (outs1, out1)"
      by (cases "drain e (select_readable e) [] (printed w)")
    from drain_select_shape [of e "printed w"] dr
    have shape: "outs1 = [] \<or> (\<exists>b. outs1 = [b])" by simp
    show ?thesis
    proof (cases "outs1 = []")
      case False
      with shape ev dr Cons.prems waited show ?thesis
        by (auto simp add: receive_loop.simps [of t eb "[]" w] Let_def split: if_splits)
    next
      case True
      show ?thesis
      proof (cases "returncode e = None")
        case False
        with True ev dr Cons.prems waited show ?thesis
          by (auto simp add: receive_loop.simps [of t eb "[]" w] Let_def split: if_splits)
      next
        case alive: True
        with True ev dr Cons.prems waited
        have "receive_loop t eb []
                (w\<lparr>events := es, select_calls := select_calls w + 1, printed := out1\<rparr>) =
              (Break outs', w')"
          by (auto simp add: receive_loop.simps [of t eb "[]" w] Let_def split: if_splits)
        with Cons.hyps(1) [of "w\<lparr>events := es, select_calls := select_calls w + 1, printed := out1\<rparr>"] ev
        show ?thesis by auto
      qed
    qed
  qed
qed

text \<open>
  Without timeout and without \<open>empty_break\<close> the plain \<open>return\<close> is never taken, so
  \<open>receive_message()\<close> with its default arguments never returns \<open>None\<close>.
\<close>

lemma receive_loop_no_early_return:
  "receive_loop None False outs w \<noteq> (EarlyReturn, w')"
proof (induction "events w" arbitrary: w outs)
  case Nil
  then show ?case by (simp add: receive_loop.simps [of None False outs w])
next
  case (Cons e es)
  from Cons.hyps(2) have ev: "events w = e # es" by simp
  obtain outs1 out1 where dr: "drain e (select_readable e) outs (printed w) = (outs1, out1)"
    by (cases "drain e (select_readable e) outs (printed w)")
  from ev dr Cons.hyps(1) [of "w\<lparr>events := es\<rparr>" outs]
     Cons.hyps(1) [of "w\<lparr>events := es, select_calls := select_calls w + 1, printed := out1\<rparr>" outs1]
  show ?case
    by (auto simp add: receive_loop.simps [of None False outs w] Let_def)
qed

lemma receive_message_default_not_None:
  "fst (receive_message unpack None False self w) \<noteq> Returns None"
proof (cases "receive_loop None False [] w")
  case (Pair x w')
  with receive_loop_no_early_return [of "[]" w w'] show ?thesis
    by (cases x) (auto simp add: receive_message_def check_process_def)
qed

text \<open>
  Hence the retry loop never goes round twice: for a cap that is not negative,
  \<open>receive_with_retry\<close> is one \<open>receive_message()\<close>, followed by the warning when the
  cap is 1.
\<close>

lemma receive_with_retry_single_call:
  assumes "0 \<le> max_retry"
  shows "receive_with_retry unpack self max_retry w =
           (case receive_message unpack None False self w of
              (Returns r, w') \<Rightarrow>
                (Returns r,
                 if max_retry = 1 then w'\<lparr>warnings := warnings w' @ [''Max retry reached.'']\<rparr> else w')
            | (Raises e, w') \<Rightarrow> (Raises e, w')
            | (Blocks, w') \<Rightarrow> (Blocks, w'))"
proof (cases "receive_message unpack None False self w")
  case (Pair x w')
  show ?thesis
  proof (cases x)
    case (Returns r)
    with Pair receive_message_default_not_None [of unpack self w] have "r \<noteq> None" by auto
    with Pair Returns assms show ?thesis
      by (auto simp add: receive_with_retry_def retry_loop.simps [of unpack self max_retry None 0 w]
            retry_loop.simps [of unpack self max_retry r 1 w'])
  next
    case (Raises e)
    with Pair assms show ?thesis
      by (simp add: receive_with_retry_def retry_loop.simps [of unpack self max_retry None 0 w])
  next
    case Blocks
    with Pair assms show ?thesis
      by (simp add: receive_with_retry_def retry_loop.simps [of unpack self max_retry None 0 w])
  qed
qed

text \<open>With a negative cap the loop is not entered: nothing is received, nothing checked.\<close>

lemma receive_with_retry_negative_cap:
  "max_retry < 0 \<Longrightarrow> receive_with_retry unpack self max_retry w = (Returns None, w)"
  by (simp add: receive_with_retry_def retry_loop.simps [of unpack self max_retry None 0 w])

text \<open>The failed assertion of \<open>receive_message\<close> always has an exited child behind it.\<close>

lemma assertion_failure_means_exit:
  assumes "receive_message unpack timeout empty_break self w = (Raises AssertionError, w')"
  shows "\<exists>e \<in> set (events w). returncode e \<noteq> None"
proof (cases "receive_loop timeout empty_break [] w")
  case (Pair x w1)
  show ?thesis
  proof (cases x)
    case (Break outs)
    with Pair assms have "length outs \<noteq> 1"
      by (auto simp add: receive_message_def check_process_def split: if_splits)
    with receive_loop_break [of timeout empty_break w outs w1] Pair Break show ?thesis by auto
  next
    case EarlyReturn
    with Pair assms show ?thesis
      by (auto simp add: receive_message_def check_process_def split: if_splits)
  next
    case Forever
    with Pair assms show ?thesis
      by (auto simp add: receive_message_def check_process_def split: if_splits)
  qed
qed

section \<open>The resolver, step by step\<close>

lemma mkdir_from_fields:
  "platform_system (snd (mkdir_from b p h)) = platform_system h \<and>
   platform_architecture (snd (mkdir_from b p h)) = platform_architecture h \<and>
   home (snd (mkdir_from b p h)) = home h \<and>
   http (snd (mkdir_from b p h)) = http h \<and>
   file_creation_mode (snd (mkdir_from b p h)) = file_creation_mode h \<and>
   requests_log (snd (mkdir_from b p h)) = requests_log h"
  by (induction b p h rule: mkdir_from.induct) (auto simp: Let_def split: option.splits node.splits)

lemma isfile_new_dir:
  "files h d = None \<Longrightarrow>
   os_path_isfile (h\<lparr>files := (files h)(d \<mapsto> Dir m)\<rparr>) q = os_path_isfile h q"
  by (simp add: os_path_isfile_def)

text \<open>Creating directories never makes or removes a regular file.\<close>

lemma mkdir_from_isfile:
  "os_path_isfile (snd (mkdir_from b p h)) q = os_path_isfile h q"
proof (induction p arbitrary: b h)
  case Nil
  show ?case by simp
next
  case (Cons c cs)
  show ?case
  proof (cases "files h (b @ [c])")
    case None
    with Cons [of "b @ [c]" "h\<lparr>files := (files h)(b @ [c] \<mapsto> Dir (dir_creation_mode h))\<rparr>"]
    show ?thesis by (simp add: isfile_new_dir Let_def)
  next
    case (Some n)
    with Cons [of "b @ [c]" h] show ?thesis by (cases n) (simp_all add: Let_def)
  qed
qed

text \<open>Nor does it touch a path longer than the directory asked for.\<close>

lemma mkdir_from_long:
  "length b + length p < length q \<Longrightarrow> files (snd (mkdir_from b p h)) q = files h q"
  by (induction b p h rule: mkdir_from.induct) (auto simp: Let_def split: option.splits node.splits)

lemma mkdir_parents_ok:
  assumes "mkdir_parents d h = (r, ha)"
  shows "platform_system ha = platform_system h"
    and "platform_architecture ha = platform_architecture h"
    and "home ha = home h"
    and "os_path_isfile ha q = os_path_isfile h q"
  using assms mkdir_from_fields [of "[]" d h] mkdir_from_isfile [of "[]" d h q]
  by (auto simp add: mkdir_parents_def)

lemma download_binary_ok:
  assumes "download_binary f t h = (Inr (), h1)"
  shows "(\<exists>body m. files h1 = (files h)(t \<mapsto> File body m)) \<and>
         platform_system h1 = platform_system h \<and>
         platform_architecture h1 = platform_architecture h \<and>
         home h1 = home h"
  using assms
  by (auto simp add: download_binary_def Let_def
        split: http_reply.splits option.splits node.splits) blast+

lemma os_chmod_ok:
  assumes "os_chmod p m h = (Inr (), h1)"
  shows "(\<exists>n. files h p = Some n \<and>
              files h1 = (files h)(p \<mapsto> (case n of File b m0 \<Rightarrow> File b m | Dir m0 \<Rightarrow> Dir m))) \<and>
         platform_system h1 = platform_system h \<and>
         platform_architecture h1 = platform_architecture h \<and>
         home h1 = home h \<and> requests_log h1 = requests_log h"
  using assms
  by (auto simp add: os_chmod_def split: option.splits node.splits)

lemma isfile_elsewhere:
  "q \<noteq> p \<Longrightarrow> files h1 = (files h)(p \<mapsto> n) \<Longrightarrow> os_path_isfile h1 q = os_path_isfile h q"
  by (simp add: os_path_isfile_def)

lemma alpine_key_unlisted: "map_of BINARIES (''alpine'' # k) = None"
  by (simp add: BINARIES_def)

lemma table_names: "map_of BINARIES k = Some f \<Longrightarrow> f \<noteq> ''alpine-release''"
  by (auto simp add: BINARIES_def split: if_splits)

text \<open>The binary is never written over the alpine marker: the file names differ.\<close>

lemma marker_not_binary:
  "map_of BINARIES k = Some f \<Longrightarrow>
   [''/'', ''etc'', ''alpine-release''] \<noteq> hm @ [''.pkl'', ''bin'', PKL_VERSION, f]"
proof
  assume t: "map_of BINARIES k = Some f"
    and e: "[''/'', ''etc'', ''alpine-release''] = hm @ [''.pkl'', ''bin'', PKL_VERSION, f]"
  from e have "last [''/'', ''etc'', ''alpine-release''] = last (hm @ [''.pkl'', ''bin'', PKL_VERSION, f])"
    by simp
  then have "f = ''alpine-release''" by simp
  with table_names [OF t] show False by simp
qed

lemma owner_execute_bits:
  "and (or m S_IXUSR) S_IXUSR = S_IXUSR"
  "and (or m S_IXUSR) (not S_IXUSR) = and m (not S_IXUSR)"
  "or (or m S_IXUSR) S_IXUSR = or m S_IXUSR"
  by (auto simp add: bit_eq_iff bit_and_iff bit_or_iff bit_not_iff)

text \<open>What a successful call went through.\<close>

lemma get_binary_path_inv:
  assumes "get_binary_path h = (Inr p, h1)"
  shows "\<exists>f h2 m.
           \<not> (fst (detect_system h) = ''linux'' \<and> is_alpine_linux h) \<and>
           map_of BINARIES [fst (detect_system h), snd (detect_system h)] = Some f \<and>
           p = home h @ [''.pkl'', ''bin'', PKL_VERSION, f] \<and>
           (if path_exists h p then h2 = h
            else \<exists>ha. mkdir_parents (parent p) h = (Inr (), ha) \<and>
                      download_binary f p ha = (Inr (), h2)) \<and>
           os_stat h2 p = Inr m \<and>
           os_chmod p (or m S_IXUSR) h2 = (Inr (), h1)"
  using assms
  by (auto simp add: get_binary_path_def expanduser_def Let_def alpine_key_unlisted
        split: prod.splits option.splits if_splits sum.splits)

text \<open>The call on a host that already has the file: no directory, no download.\<close>

lemma get_binary_path_reuse:
  assumes "\<not> (fst (detect_system h) = ''linux'' \<and> is_alpine_linux h)"
    and "map_of BINARIES [fst (detect_system h), snd (detect_system h)] = Some f"
    and "files h (home h @ [''.pkl'', ''bin'', PKL_VERSION, f]) = Some n"
  shows "get_binary_path h =
          (Inr (home h @ [''.pkl'', ''bin'', PKL_VERSION, f]),
           h\<lparr>files := (files h)(home h @ [''.pkl'', ''bin'', PKL_VERSION, f] \<mapsto>
                 (case n of File b m0 \<Rightarrow> File b (or (st_mode n) S_IXUSR)
                          | Dir m0 \<Rightarrow> Dir (or (st_mode n) S_IXUSR)))\<rparr>)"
  using assms
  by (cases "detect_system h")
     (auto simp add: get_binary_path_def expanduser_def path_exists_def os_stat_def os_chmod_def
        Let_def split: node.splits)

text \<open>The host after a successful call: same platform, and the file is there.\<close>

lemma get_binary_path_post:
  assumes "get_binary_path h = (Inr p, h1)"
  shows "detect_system h1 = detect_system h \<and> home h1 = home h \<and>
         is_alpine_linux h1 = is_alpine_linux h \<and>
         (\<exists>n m. files h1 p = Some n \<and> st_mode n = or m S_IXUSR)"
proof -
  from get_binary_path_inv [OF assms] obtain f h2 m where
    tab: "map_of BINARIES [fst (detect_system h), snd (detect_system h)] = Some f"
    and p: "p = home h @ [''.pkl'', ''bin'', PKL_VERSION, f]"
    and pre: "if path_exists h p then h2 = h
              else \<exists>ha. mkdir_parents (parent p) h = (Inr (), ha) \<and>
                        download_binary f p ha = (Inr (), h2)"
    and ch: "os_chmod p (or m S_IXUSR) h2 = (Inr (), h1)"
    by blast
  from marker_not_binary [OF tab, of "home h"] p
  have mk: "[''/'', ''etc'', ''alpine-release''] \<noteq> p" by simp
  have h2: "platform_system h2 = platform_system h \<and>
            platform_architecture h2 = platform_architecture h \<and>
            home h2 = home h \<and> is_alpine_linux h2 = is_alpine_linux h"
  proof (cases "path_exists h p")
    case True
    with pre show ?thesis by simp
  next
    case False
    with pre obtain ha where mk_ok: "mkdir_parents (parent p) h = (Inr (), ha)"
      and dl: "download_binary f p ha = (Inr (), h2)" by auto
    from download_binary_ok [OF dl] obtain body md where
      "files h2 = (files ha)(p \<mapsto> File body md)" by blast
    from isfile_elsewhere [OF mk this] mkdir_parents_ok [OF mk_ok] download_binary_ok [OF dl]
    show ?thesis by (simp add: is_alpine_linux_def)
  qed
  from os_chmod_ok [OF ch] obtain n where
    n: "files h2 p = Some n"
    and f1: "files h1 = (files h2)(p \<mapsto> (case n of File b m0 \<Rightarrow> File b (or m S_IXUSR)
                                                   | Dir m0 \<Rightarrow> Dir (or m S_IXUSR)))"
    by blast
  from isfile_elsewhere [OF mk f1] have "is_alpine_linux h1 = is_alpine_linux h2"
    by (simp add: is_alpine_linux_def)
  moreover from f1 have "\<exists>n1. files h1 p = Some n1 \<and> st_mode n1 = or m S_IXUSR"
    by (cases n) simp_all
  ultimately show ?thesis
    using h2 os_chmod_ok [OF ch] by (auto simp add: detect_system_def)
qed

text \<open>
  The two halves of the platform contract that the code keeps: a host whose tuple is
  not in the table is refused with the host left as it was, and a path that is returned
  is named by the table entry of the host's tuple.
\<close>

lemma unlisted_platform_fails:
  assumes "map_of BINARIES (host_tuple h) = None"
  shows "get_binary_path h = (Inl (OSError ''No compatible binary found for your system.''), h)"
  using assms
  by (cases "detect_system h")
     (auto simp add: get_binary_path_def host_tuple_def alpine_key_unlisted split: if_splits)

lemma listed_platform_filename:
  assumes "get_binary_path h = (Inr p, h1)"
  shows "map_of BINARIES (host_tuple h) = Some (name p)"
proof -
  from get_binary_path_inv [OF assms] obtain f where
    "\<not> (fst (detect_system h) = ''linux'' \<and> is_alpine_linux h)"
    "map_of BINARIES [fst (detect_system h), snd (detect_system h)] = Some f"
    "p = home h @ [''.pkl'', ''bin'', PKL_VERSION, f]"
    by blast
  then show ?thesis
    by (cases "detect_system h") (auto simp add: host_tuple_def name_def)
qed

text \<open>
  A response to the GET is installed whatever its status code is: the body becomes the
  file at the binary path, owner-executable, and the path is returned.
\<close>

lemma response_installed_any_status:
  assumes "\<not> (fst (detect_system h) = ''linux'' \<and> is_alpine_linux h)"
    and "map_of BINARIES [fst (detect_system h), snd (detect_system h)] = Some f"
    and "\<not> path_exists h (home h @ [''.pkl'', ''bin'', PKL_VERSION, f])"
    and "mkdir_parents (home h @ [''.pkl'', ''bin'', PKL_VERSION]) h = (Inr (), ha)"
    and "http h (BASE_PATH @ PKL_VERSION @ ''/'' @ f) = Response st body"
  shows "get_binary_path h =
           (Inr (home h @ [''.pkl'', ''bin'', PKL_VERSION, f]),
            ha\<lparr>requests_log := requests_log h @ [BASE_PATH @ PKL_VERSION @ ''/'' @ f],
               files := (files ha)(home h @ [''.pkl'', ''bin'', PKL_VERSION, f] \<mapsto>
                          File body (or (file_creation_mode h) S_IXUSR))\<rparr>)"
proof -
  from assms(4) mkdir_from_fields [of "[]" "home h @ [''.pkl'', ''bin'', PKL_VERSION]" h]
  have same: "http ha = http h" "requests_log ha = requests_log h"
    "file_creation_mode ha = file_creation_mode h"
    by (simp_all add: mkdir_parents_def)
  from assms(4)
    mkdir_from_long [of "[]" "home h @ [''.pkl'', ''bin'', PKL_VERSION]"
                        "home h @ [''.pkl'', ''bin'', PKL_VERSION, f]" h]
  have "files ha (home h @ [''.pkl'', ''bin'', PKL_VERSION, f]) =
        files h (home h @ [''.pkl'', ''bin'', PKL_VERSION, f])"
    by (simp add: mkdir_parents_def)
  with assms(3) have none: "files ha (home h @ [''.pkl'', ''bin'', PKL_VERSION, f]) = None"
    by (simp add: path_exists_def)
  from assms(5) same none
  have dl: "download_binary f (home h @ [''.pkl'', ''bin'', PKL_VERSION, f]) ha =
              (Inr (),
               ha\<lparr>requests_log := requests_log h @ [BASE_PATH @ PKL_VERSION @ ''/'' @ f],
                  files := (files ha)(home h @ [''.pkl'', ''bin'', PKL_VERSION, f] \<mapsto>
                             File body (file_creation_mode h))\<rparr>)"
    by (simp add: download_binary_def)
  have par: "parent (home h @ [''.pkl'', ''bin'', PKL_VERSION, f]) =
             home h @ [''.pkl'', ''bin'', PKL_VERSION]"
    by (simp add: parent_def butlast_append)
  from assms(1,2,3,4) dl show ?thesis
    by (cases "detect_system h")
       (auto simp add: get_binary_path_def expanduser_def par os_stat_def os_chmod_def Let_def)
qed

section \<open>The claims\<close>

text \<open>
  C1. When the child has exited without any byte on stdout, \<open>receive_message\<close> is said to
  log the termination, leave the loop and return what it has without raising. The code
  does log and leave the loop, but the \<open>assert len(outputs) == 1\<close> that follows fails
  on the empty list: the call raises \<open>AssertionError\<close>. Evaluated for a running server
  whose child writes to stderr and exits.
\<close>

theorem exited_child_raises_assertion:
  "receive_message unpack_chunk None False running_server (child_with [stderr_then_exit]) =
     (Raises AssertionError,
      (child_with [])\<lparr>printed := [''boom'', terminated_line], select_calls := 1\<rparr>)"
  by (simp add: child_defs transport_defs receive_loop.simps)

text \<open>
  C2. On a 64-bit Linux with the alpine marker file the resolver is said to look up
  \<open>("linux", "64bit", "alpine")\<close> and return the path of \<open>pkl-alpine-linux-amd64\<close>. The
  table has that entry, but the code has renamed the system to \<open>alpine\<close> before it
  builds the key, finds nothing under \<open>("alpine", "64bit")\<close> and raises \<open>OSError\<close>,
  leaving the host untouched.
\<close>

theorem alpine_host_unsupported:
  assumes "detect_system h = (''linux'', ''64bit'')" and "is_alpine_linux h"
  shows "get_binary_path h = (Inl (OSError ''No compatible binary found for your system.''), h) \<and>
         map_of BINARIES [''linux'', ''64bit'', ''alpine''] = Some ''pkl-alpine-linux-amd64''"
  using assms by (simp add: get_binary_path_def alpine_key_unlisted) (simp add: BINARIES_def)

theorem alpine_host_unsupported_witness:
  "detect_system alpine_host = (''linux'', ''64bit'') \<and> is_alpine_linux alpine_host \<and>
   get_binary_path alpine_host =
     (Inl (OSError ''No compatible binary found for your system.''), alpine_host)"
proof -
  have d: "detect_system alpine_host = (''linux'', ''64bit'')"
    by (simp add: host_defs detect_system_def lower_def lower_char_def)
  have a: "is_alpine_linux alpine_host"
    by (simp add: host_defs is_alpine_linux_def os_path_isfile_def)
  from alpine_host_unsupported [OF d a] d a show ?thesis by simp
qed

text \<open>
  C3. \<open>receive_with_retry\<close> is said to warn exactly when the retry cap is reached without
  a response, and to return rather than raise. With \<open>max_retry = 1\<close> and a child that
  answers at once, the code returns the response and warns all the same (\<open>retry\<close> is 1
  after the first call, and the test is \<open>retry == max_retry\<close>); on a silent child it
  waits without end and never warns; on an exited child the assertion of
  \<open>receive_message\<close> comes through.
\<close>

theorem retry_warns_despite_response:
  "receive_with_retry unpack_chunk running_server 1 (child_with [one_chunk]) =
     (Returns (Some [''x'']),
      (child_with [])\<lparr>warnings := [''Max retry reached.''], select_calls := 1\<rparr>) \<and>
   receive_with_retry unpack_chunk running_server 3 (child_with []) = (Blocks, child_with []) \<and>
   fst (receive_with_retry unpack_chunk running_server 3 (child_with [stderr_then_exit])) =
     Raises AssertionError"
  by (simp add: child_defs transport_defs receive_loop.simps receive_with_retry_def
        retry_loop.simps)

text \<open>
  C4, as stated: a non-2xx response to the GET is a failure that reaches the caller, and
  no file is installed. The code never looks at the status: on a 404 the body is written
  to the binary path, made owner-executable, and the path is returned, so that the server
  object is built.
\<close>

theorem not_found_response_installed:
  "fst (get_binary_path not_found_host) = Inr linux_binary \<and>
   files (snd (get_binary_path not_found_host)) linux_binary = Some (File ''Not Found'' 33252) \<and>
   fst (PKLServer_init not_found_host) = Inr fresh_server"
  by (simp add: host_defs resolver_defs PKLServer_init_def fresh_server_def)

text \<open>
  C4, amended: when the GET itself fails (\<open>requests.get\<close> raises), the failure reaches
  the caller of \<open>get_binary_path\<close> and of the constructor, exactly one GET has been made
  (no retry), and there is no file at the binary path.
\<close>

theorem network_failure_propagates:
  assumes "\<not> (fst (detect_system h) = ''linux'' \<and> is_alpine_linux h)"
    and "map_of BINARIES [fst (detect_system h), snd (detect_system h)] = Some f"
    and "\<not> path_exists h (home h @ [''.pkl'', ''bin'', PKL_VERSION, f])"
    and "mkdir_parents (home h @ [''.pkl'', ''bin'', PKL_VERSION]) h = (Inr (), ha)"
    and "http h (BASE_PATH @ PKL_VERSION @ ''/'' @ f) = NetworkFailure"
  shows "get_binary_path h =
           (Inl ConnectionError,
            ha\<lparr>requests_log := requests_log h @ [BASE_PATH @ PKL_VERSION @ ''/'' @ f]\<rparr>) \<and>
         files ha (home h @ [''.pkl'', ''bin'', PKL_VERSION, f]) = None \<and>
         fst (PKLServer_init h) = Inl ConnectionError"
proof -
  from assms(4) mkdir_from_fields [of "[]" "home h @ [''.pkl'', ''bin'', PKL_VERSION]" h]
  have same: "http ha = http h" "requests_log ha = requests_log h"
    by (simp_all add: mkdir_parents_def)
  from assms(4)
    mkdir_from_long [of "[]" "home h @ [''.pkl'', ''bin'', PKL_VERSION]"
                        "home h @ [''.pkl'', ''bin'', PKL_VERSION, f]" h]
  have "files ha (home h @ [''.pkl'', ''bin'', PKL_VERSION, f]) =
        files h (home h @ [''.pkl'', ''bin'', PKL_VERSION, f])"
    by (simp add: mkdir_parents_def)
  with assms(3) have none: "files ha (home h @ [''.pkl'', ''bin'', PKL_VERSION, f]) = None"
    by (simp add: path_exists_def)
  from assms(5) same
  have dl: "download_binary f (home h @ [''.pkl'', ''bin'', PKL_VERSION, f]) ha =
              (Inl ConnectionError,
               ha\<lparr>requests_log := requests_log h @ [BASE_PATH @ PKL_VERSION @ ''/'' @ f]\<rparr>)"
    by (simp add: download_binary_def)
  have par: "parent (home h @ [''.pkl'', ''bin'', PKL_VERSION, f]) =
             home h @ [''.pkl'', ''bin'', PKL_VERSION]"
    by (simp add: parent_def butlast_append)
  from assms(1,2,3,4) dl
  have "get_binary_path h =
           (Inl ConnectionError,
            ha\<lparr>requests_log := requests_log h @ [BASE_PATH @ PKL_VERSION @ ''/'' @ f]\<rparr>)"
    by (cases "detect_system h") (auto simp add: get_binary_path_def expanduser_def par Let_def)
  with none show ?thesis by (simp add: PKLServer_init_def)
qed

theorem network_failure_propagates_witness:
  "fst (get_binary_path offline_host) = Inl ConnectionError \<and>
   requests_log (snd (get_binary_path offline_host)) =
     [''https://github.com/apple/pkl/releases/download/0.25.2/pkl-linux-amd64''] \<and>
   files (snd (get_binary_path offline_host)) linux_binary = None \<and>
   fst (PKLServer_init offline_host) = Inl ConnectionError"
proof -
  have d: "detect_system offline_host = (''linux'', ''64bit'')"
    by (simp add: host_defs detect_system_def lower_def lower_char_def)
  have a: "\<not> (fst (detect_system offline_host) = ''linux'' \<and> is_alpine_linux offline_host)"
    by (simp add: host_defs is_alpine_linux_def os_path_isfile_def)
  have t: "map_of BINARIES [fst (detect_system offline_host), snd (detect_system offline_host)] =
           Some ''pkl-linux-amd64''"
    by (simp add: d BINARIES_def)
  have e: "\<not> path_exists offline_host
               (home offline_host @ [''.pkl'', ''bin'', PKL_VERSION, ''pkl-linux-amd64''])"
    by (simp add: host_defs path_exists_def)
  have m: "mkdir_parents (home offline_host @ [''.pkl'', ''bin'', PKL_VERSION]) offline_host =
             (Inr (), snd (mkdir_parents (home offline_host @ [''.pkl'', ''bin'', PKL_VERSION])
                             offline_host))"
    by (simp add: host_defs mkdir_parents_def PKL_VERSION_def prod_eq_iff)
  have n: "http offline_host (BASE_PATH @ PKL_VERSION @ ''/'' @ ''pkl-linux-amd64'') = NetworkFailure"
    by (simp add: host_defs)
  from network_failure_propagates [OF a t e m n]
  show ?thesis
    by (simp add: host_defs mkdir_parents_def PKL_VERSION_def BASE_PATH_def)
qed

text \<open>
  C5, as stated: every transport operation called without a handle fails. With a negative
  \<open>max_retry\<close> the loop of \<open>receive_with_retry\<close> is not entered, \<open>check_process\<close> is
  never reached, and the call returns \<open>None\<close>.
\<close>

theorem retry_without_handle_returns:
  "process fresh_server = None \<and>
   receive_with_retry unpack_chunk fresh_server (- 1) (child_with [one_chunk]) =
     (Returns None, child_with [one_chunk])"
  by (simp add: child_defs receive_with_retry_def retry_loop.simps)

text \<open>
  C5, amended: without a handle, \<open>send_message\<close>, \<open>receive_message\<close>, \<open>send_and_receive\<close>
  and \<open>receive_with_retry\<close> with \<open>max_retry \<ge> 0\<close> raise the \<open>ValueError\<close> of
  \<open>check_process\<close>. Nothing outside the object has changed (no child spawned, nothing
  written or read), and the object, which these operations cannot change, is still without
  a handle.
\<close>

theorem transport_requires_handle:
  assumes "process self = None"
  shows "send_message packb self msg_obj w = (Raises (ValueError start_first), w) \<and>
         receive_message unpack timeout empty_break self w = (Raises (ValueError start_first), w) \<and>
         send_and_receive packb unpack self msg_obj w = (Raises (ValueError start_first), w) \<and>
         (0 \<le> max_retry \<longrightarrow>
            receive_with_retry unpack self max_retry w = (Raises (ValueError start_first), w))"
  using assms
  by (simp add: send_message_def receive_message_def send_and_receive_def check_process_def
        receive_with_retry_def retry_loop.simps [of unpack self max_retry None 0 w])

theorem transport_requires_handle_witness:
  "process fresh_server = None \<and> (0::int) \<le> 3 \<and>
   (send_message pack_chunk fresh_server ''ping'' (child_with [one_chunk])
      :: bytes list option outcome \<times> world) =
     (Raises (ValueError start_first), child_with [one_chunk]) \<and>
   receive_message unpack_chunk None False fresh_server (child_with [one_chunk]) =
     (Raises (ValueError start_first), child_with [one_chunk]) \<and>
   send_and_receive pack_chunk unpack_chunk fresh_server ''ping'' (child_with [one_chunk]) =
     (Raises (ValueError start_first), child_with [one_chunk]) \<and>
   receive_with_retry unpack_chunk fresh_server 3 (child_with [one_chunk]) =
     (Raises (ValueError start_first), child_with [one_chunk])"
proof -
  have p: "process fresh_server = None" by (simp add: fresh_server_def)
  from transport_requires_handle
         [OF p, of pack_chunk "''ping''" "child_with [one_chunk]" unpack_chunk None False 3]
  show ?thesis using p by simp
qed

text \<open>
  C6. A host whose platform tuple is in the descriptor table is said to get a path named
  by its table entry. The tuple of an alpine 64-bit Linux is in the table, and the code
  refuses that host with \<open>OSError\<close>: the same renaming of the system that C2 meets. (The
  other half of the claim holds, see \<open>unlisted_platform_fails\<close>, and so does this half
  wherever a path is returned, see \<open>listed_platform_filename\<close>.)
\<close>

theorem listed_alpine_tuple_rejected:
  "map_of BINARIES (host_tuple alpine_container) = Some ''pkl-alpine-linux-amd64'' \<and>
   get_binary_path alpine_container =
     (Inl (OSError ''No compatible binary found for your system.''), alpine_container)"
  by (simp add: host_defs host_tuple_def resolver_defs)

text \<open>
  C7. Resolution is idempotent. After a call that returned a path, a second call returns
  the same path and leaves the host exactly as it was: no GET is added to the log, and the
  \<open>chmod\<close> it still performs writes the mode that is already there. And whenever the
  file was there before a call, that call makes no GET, and the file's mode afterwards is
  the old mode with the owner-execute bit set: that bit is on, every other bit is as
  before.
\<close>

theorem get_binary_path_idempotent:
  assumes "get_binary_path h = (Inr p, h1)"
  shows "get_binary_path h1 = (Inr p, h1) \<and>
         (path_exists h p \<longrightarrow>
            requests_log h1 = requests_log h \<and>
            (\<exists>m. os_stat h p = Inr m \<and> os_stat h1 p = Inr (or m S_IXUSR) \<and>
                 and (or m S_IXUSR) S_IXUSR = S_IXUSR \<and>
                 and (or m S_IXUSR) (not S_IXUSR) = and m (not S_IXUSR)))"
proof
  from get_binary_path_inv [OF assms] obtain f where
    na: "\<not> (fst (detect_system h) = ''linux'' \<and> is_alpine_linux h)"
    and tab: "map_of BINARIES [fst (detect_system h), snd (detect_system h)] = Some f"
    and p: "p = home h @ [''.pkl'', ''bin'', PKL_VERSION, f]"
    by blast
  from get_binary_path_post [OF assms] obtain n m where
    same: "detect_system h1 = detect_system h" "home h1 = home h"
      "is_alpine_linux h1 = is_alpine_linux h"
    and n: "files h1 p = Some n" and mode: "st_mode n = or m S_IXUSR"
    by blast
  from na tab p n same
  have "get_binary_path h1 =
          (Inr p, h1\<lparr>files := (files h1)(p \<mapsto>
             (case n of File b m0 \<Rightarrow> File b (or (st_mode n) S_IXUSR)
                      | Dir m0 \<Rightarrow> Dir (or (st_mode n) S_IXUSR)))\<rparr>)"
    using get_binary_path_reuse [of h1 f n] by simp
  moreover have "(case n of File b m0 \<Rightarrow> File b (or (st_mode n) S_IXUSR)
                          | Dir m0 \<Rightarrow> Dir (or (st_mode n) S_IXUSR)) = n"
    using mode by (cases n) (simp_all add: owner_execute_bits)
  moreover from n have "(files h1)(p \<mapsto> n) = files h1" by (rule map_upd_triv)
  ultimately show "get_binary_path h1 = (Inr p, h1)" by simp
next
  show "path_exists h p \<longrightarrow>
            requests_log h1 = requests_log h \<and>
            (\<exists>m. os_stat h p = Inr m \<and> os_stat h1 p = Inr (or m S_IXUSR) \<and>
                 and (or m S_IXUSR) S_IXUSR = S_IXUSR \<and>
                 and (or m S_IXUSR) (not S_IXUSR) = and m (not S_IXUSR))"
  proof
    assume ex: "path_exists h p"
    from get_binary_path_inv [OF assms] obtain f where
      na: "\<not> (fst (detect_system h) = ''linux'' \<and> is_alpine_linux h)"
      and tab: "map_of BINARIES [fst (detect_system h), snd (detect_system h)] = Some f"
      and p: "p = home h @ [''.pkl'', ''bin'', PKL_VERSION, f]"
      by blast
    from ex obtain n where n: "files h p = Some n" by (auto simp add: path_exists_def)
    from get_binary_path_reuse [OF na tab n [unfolded p]] assms p
    have h1: "h1 = h\<lparr>files := (files h)(p \<mapsto>
                 (case n of File b m0 \<Rightarrow> File b (or (st_mode n) S_IXUSR)
                          | Dir m0 \<Rightarrow> Dir (or (st_mode n) S_IXUSR)))\<rparr>"
      by simp
    from n have "os_stat h p = Inr (st_mode n)" by (simp add: os_stat_def)
    moreover from h1 have "os_stat h1 p = Inr (or (st_mode n) S_IXUSR)"
      by (cases n) (simp_all add: os_stat_def)
    moreover from h1 have "requests_log h1 = requests_log h" by simp
    ultimately show "requests_log h1 = requests_log h \<and>
            (\<exists>m. os_stat h p = Inr m \<and> os_stat h1 p = Inr (or m S_IXUSR) \<and>
                 and (or m S_IXUSR) S_IXUSR = S_IXUSR \<and>
                 and (or m S_IXUSR) (not S_IXUSR) = and m (not S_IXUSR))"
      by (simp add: owner_execute_bits)
  qed
qed

theorem get_binary_path_idempotent_witness:
  "fst (get_binary_path installed_host) = Inr linux_binary \<and>
   path_exists installed_host linux_binary \<and>
   get_binary_path (snd (get_binary_path installed_host)) =
     (Inr linux_binary, snd (get_binary_path installed_host)) \<and>
   requests_log (snd (get_binary_path installed_host)) = requests_log installed_host \<and>
   os_stat installed_host linux_binary = Inr 33188 \<and>
   os_stat (snd (get_binary_path installed_host)) linux_binary = Inr 33252"
proof -
  have r: "fst (get_binary_path installed_host) = Inr linux_binary"
    by (simp add: host_defs resolver_defs)
  then have c: "get_binary_path installed_host =
                  (Inr linux_binary, snd (get_binary_path installed_host))"
    by (simp add: prod_eq_iff)
  have e: "path_exists installed_host linux_binary"
    by (simp add: host_defs path_exists_def)
  have s: "os_stat installed_host linux_binary = Inr 33188"
    by (simp add: host_defs os_stat_def)
  from get_binary_path_idempotent [OF c] e s r show ?thesis
    by (auto simp add: S_IXUSR_def)
qed

text \<open>
  C8, as stated: with a timeout \<open>T\<close> and \<open>empty_break\<close> set, on a child that produces no
  output within \<open>T\<close>, the call returns an empty result without blocking past \<open>T\<close>. The
  timeout is handed to each \<open>select\<close> anew and nothing keeps a deadline for the call. A
  child that writes nothing to stdout but something to stderr makes the first \<open>select\<close>
  return; the text is printed, \<open>outputs\<close> is still empty, and a second \<open>select\<close> waits
  up to \<open>T\<close> again before the call returns. If that child has exited by the time of
  \<open>poll()\<close>, the call does not return at all but raises.
\<close>

theorem stderr_restarts_timeout:
  "receive_message unpack_chunk (Some 5) True running_server (child_with [stderr_only, nothing_ready]) =
     (Returns None, (child_with [])\<lparr>printed := [''warn''], select_calls := 2\<rparr>) \<and>
   receive_message unpack_chunk (Some 5) True running_server (child_with [stderr_then_exit]) =
     (Raises AssertionError,
      (child_with [])\<lparr>printed := [''boom'', terminated_line], select_calls := 1\<rparr>)"
  by (simp add: child_defs transport_defs receive_loop.simps)

text \<open>
  C8, amended: with a handle, a timeout \<open>T\<close> and \<open>empty_break\<close> set, when neither stdout
  nor stderr becomes readable within \<open>T\<close>, \<open>receive_message\<close> returns \<open>None\<close> (no
  messages) after exactly one \<open>select\<close> call, which waits \<open>T\<close> at most: it does not go
  round the loop again, prints nothing, and has used up just the one observation.
\<close>

theorem receive_timeout_empty_break:
  assumes "process self \<noteq> None" and "nothing_readable_within_timeout w"
  shows "receive_message unpack (Some T) True self w =
           (Returns None, w\<lparr>events := tl (events w), select_calls := select_calls w + 1\<rparr>)"
  using assms
  by (cases "events w")
     (simp_all add: receive_message_def check_process_def nothing_readable_within_timeout_def
        receive_loop.simps [of "Some T" True "[]" w])

theorem receive_timeout_empty_break_witness:
  "process running_server \<noteq> None \<and>
   nothing_readable_within_timeout (child_with [nothing_ready, one_chunk]) \<and>
   receive_message unpack_chunk (Some 5) True running_server (child_with [nothing_ready, one_chunk]) =
     (Returns None, (child_with [one_chunk])\<lparr>select_calls := 1\<rparr>)"
proof -
  have p: "process running_server \<noteq> None"
    by (simp add: running_server_def fresh_server_def)
  have q: "nothing_readable_within_timeout (child_with [nothing_ready, one_chunk])"
    by (simp add: nothing_readable_within_timeout_def child_with_def nothing_ready_def
          select_readable_def pending_def)
  from receive_timeout_empty_break [OF p q, of unpack_chunk 5] p q show ?thesis
    by (simp add: child_with_def)
qed

text \<open>
  C9. The request id counter of a newly built server is 1, so the first id handed out is
  1; every call of \<open>get_request_id\<close> returns one more than the call before it; and
  \<open>terminate\<close> followed by \<open>start_process\<close> leaves the counter where it was.
\<close>

theorem request_id_counter:
  assumes "fst (PKLServer_init h) = Inr self"
  shows "next_request_id self = 1 \<and> fst (get_request_id self) = 1 \<and>
         fst (get_request_id (snd (get_request_id s))) = fst (get_request_id s) + 1 \<and>
         next_request_id
           (fst (start_process debug (fst (snd (terminate s w))) (snd (snd (terminate s w))))) =
         next_request_id s"
proof -
  from assms have "next_request_id self = 1"
    by (auto simp add: PKLServer_init_def split: prod.splits sum.splits)
  then show ?thesis
    by (auto simp add: get_request_id_def start_process_def terminate_def Let_def
          split: option.splits)
qed

theorem request_id_counter_witness:
  "fst (PKLServer_init linux_host) = Inr fresh_server \<and>
   fst (get_request_id fresh_server) = 1 \<and>
   fst (get_request_id (snd (get_request_id fresh_server))) = 2 \<and>
   next_request_id
     (fst (start_process False (fst (snd (terminate running_server (child_with []))))
             (snd (snd (terminate running_server (child_with [])))))) = 1"
proof -
  have i: "fst (PKLServer_init linux_host) = Inr fresh_server"
    by (simp add: host_defs resolver_defs PKLServer_init_def fresh_server_def)
  from request_id_counter [OF i, of fresh_server False] 
       request_id_counter [OF i, of running_server False "child_with []"] i
  show ?thesis by (simp add: running_server_def fresh_server_def)
qed

text \<open>
  C10. When the polling loop of \<open>receive_message\<close> is left by \<open>break\<close>, \<open>outputs\<close> holds at
  most one chunk: exactly one, or none, and none only after \<open>poll()\<close> has reported that
  the child exited (the termination line is then the last thing printed). So
  \<open>assert len(outputs) == 1\<close> cannot fail on two chunks, only on none.
\<close>

theorem outputs_at_most_one_chunk:
  assumes "receive_loop timeout empty_break [] w = (Break outputs, w')"
  shows "length outputs \<le> 1 \<and>
         (length outputs = 1 \<or>
          (outputs = [] \<and> (\<exists>e \<in> set (events w). returncode e \<noteq> None) \<and>
           printed w' \<noteq> [] \<and> last (printed w') = terminated_line))"
  using receive_loop_break [OF assms] by auto

theorem outputs_at_most_one_chunk_witness:
  "receive_loop None False [] (child_with [stderr_then_exit]) =
     (Break [], (child_with [])\<lparr>printed := [''boom'', terminated_line], select_calls := 1\<rparr>) \<and>
   (\<exists>e \<in> set (events (child_with [stderr_then_exit])). returncode e \<noteq> None) \<and>
   receive_loop None False [] (child_with [one_chunk]) =
     (Break [''x''], (child_with [])\<lparr>select_calls := 1\<rparr>)"
proof -
  have a: "receive_loop None False [] (child_with [stderr_then_exit]) =
     (Break [], (child_with [])\<lparr>printed := [''boom'', terminated_line], select_calls := 1\<rparr>)"
    by (simp add: child_defs transport_defs receive_loop.simps)
  have b: "receive_loop None False [] (child_with [one_chunk]) =
     (Break [''x''], (child_with [])\<lparr>select_calls := 1\<rparr>)"
    by (simp add: child_defs transport_defs receive_loop.simps)
  from outputs_at_most_one_chunk [OF a] outputs_at_most_one_chunk [OF b] a b
  show ?thesis by simp
qed

end
